theory Spec2Isabelle
  imports Complex_Main "HOL-Library.Log_Nat"
begin

section \<open>Identity bootstrap and profile store (src/src/contexts/AuthContext.tsx)\<close>

text \<open>
  The provider keeps three pieces of React state (\<open>user\<close>, \<open>telegramUser\<close>,
  \<open>loading\<close>) and talks to two collaborators: the host container
  (\<open>window.Telegram.WebApp\<close>) and the hosted backend reached through the
  \<open>supabase\<close> client. Every operation of the provider is written here as a function
  from the state before the call to the state after it. What the operation does
  outside the React state (remote requests, rows of the \<open>users\<close> table, lines on the
  console) is kept in a second record, \<open>world\<close>, threaded through the same way.

  The two identifiers (\<open>id\<close> of the host identity, \<open>id\<close> of a row) are only
  compared and passed on, never computed with; they are \<open>int\<close>. The two fields the
  code computes with, \<open>points\<close> and \<open>level\<close>, are JavaScript numbers, modelled
  below with their rounding.
\<close>

subsection \<open>JavaScript numbers\<close>

text \<open>
  A JavaScript number is an IEEE 754 binary64 value: a finite value, one of the two
  infinities, or NaN. A finite value is given by the rational it denotes; the two
  zeros are identified, since nothing in the file divides by a number or looks at
  its sign.
\<close>

datatype number = Finite rat | PosInfinity | NegInfinity | NaN

text \<open>
  \<open>binade q\<close>, for \<open>q > 0\<close>, is the exponent \<open>e\<close> with \<open>2^e \<le> q < 2^(e+1)\<close>
  (lemmas \<open>binade_lower\<close> and \<open>binade_upper\<close>), computed from the bit length of
  the integer part of \<open>q\<close> or of \<open>1 / q\<close>.
\<close>

definition binade :: "rat \<Rightarrow> int" where
  "binade q = (if 1 \<le> q then bitlen \<lfloor>q\<rfloor> - 1 else - bitlen (\<lceil>1 / q\<rceil> - 1))"

text \<open>
  The distance between neighbouring binary64 values around \<open>q\<close>: 52 fraction bits
  below the leading bit, and the fixed spacing \<open>2^-1074\<close> of the subnormal range.
\<close>

definition binary64_ulp :: "rat \<Rightarrow> rat" where
  "binary64_ulp q = 2 powi (max (binade \<bar>q\<bar>) (- 1022) - 52)"

definition round_half_even :: "rat \<Rightarrow> int" where
  "round_half_even x =
     (let f = \<lfloor>x\<rfloor> in
      if x - of_int f < 1 / 2 then f
      else if 1 / 2 < x - of_int f then f + 1
      else if even f then f else f + 1)"

definition binary64_overflow :: rat where
  "binary64_overflow = 2 ^ 1024"

text \<open>
  Rounding of an exact result to binary64, to nearest with ties to even: the result
  every arithmetic operation of JavaScript delivers. A result that rounds to
  \<open>2^1024\<close> or beyond is an infinity.
\<close>

definition round_binary64 :: "rat \<Rightarrow> number" where
  "round_binary64 q =
     (if q = 0 then Finite 0
      else
        (let r = of_int (round_half_even (q / binary64_ulp q)) * binary64_ulp q in
         if binary64_overflow \<le> r then PosInfinity
         else if r \<le> - binary64_overflow then NegInfinity
         else Finite r))"

text \<open>The operator \<open>+\<close> on two numbers.\<close>

fun js_add :: "number \<Rightarrow> number \<Rightarrow> number" where
  "js_add (Finite a) (Finite b) = round_binary64 (a + b)"
| "js_add NaN y = NaN"
| "js_add x NaN = NaN"
| "js_add PosInfinity NegInfinity = NaN"
| "js_add NegInfinity PosInfinity = NaN"
| "js_add PosInfinity y = PosInfinity"
| "js_add NegInfinity y = NegInfinity"
| "js_add x PosInfinity = PosInfinity"
| "js_add x NegInfinity = NegInfinity"

text \<open>
  The operator \<open>/\<close> with a literal divisor \<open>d > 0\<close> on the right, as in
  \<open>newPoints / 100\<close>.
\<close>

fun js_divide :: "number \<Rightarrow> rat \<Rightarrow> number" where
  "js_divide (Finite a) d = round_binary64 (a / d)"
| "js_divide x d = x"

text \<open>\<open>Math.floor\<close>: the floor of a binary64 value is a binary64 value.\<close>

fun Math_floor :: "number \<Rightarrow> number" where
  "Math_floor (Finite a) = Finite (of_int \<lfloor>a\<rfloor>)"
| "Math_floor x = x"

subsection \<open>Data model\<close>

text \<open>An error object: what a rejected remote call or a throwing host call carries.\<close>

datatype error = Error string

text \<open>
  The host identity, \<open>initDataUnsafe.user\<close> (lines 10-15). The field \<open>id\<close> is
  \<open>tg_id\<close> here; the three optional strings carry the prefix \<open>tg_\<close> to keep them
  apart from the columns of the same name.
\<close>

record TgUser =
  tg_id :: int
  tg_first_name :: "string option"
  tg_last_name :: "string option"
  tg_username :: "string option"

text \<open>
  Modelled from the spec: the type \<open>User\<close> is imported from \<open>../lib/supabase\<close>,
  which is not among the sources. Its columns are those of the UserRecord of the
  data model; the primary key \<open>id\<close> is \<open>user_id\<close> here.
\<close>

record User =
  user_id :: int
  telegram_id :: int
  username :: "string option"
  first_name :: "string option"
  last_name :: "string option"
  points :: number
  level :: number

text \<open>The React state of \<open>AuthProvider\<close> (lines 54-56).\<close>

record auth_state =
  user :: "User option"
  telegramUser :: "TgUser option"
  loading :: bool

definition initial_state :: auth_state where
  "initial_state = \<lparr>user = None, telegramUser = None, loading = True\<rparr>"

text \<open>
  The host container (lines 6-38), as far as \<open>initializeAuth\<close> reads it: the
  embedded identity, and the outcome of the two lifecycle calls (\<open>None\<close> when the
  call returns, \<open>Some e\<close> when it throws \<open>e\<close>). \<open>window.Telegram\<close> is optional, so
  the environment is a \<open>WebApp option\<close>.
\<close>

record WebApp =
  initDataUnsafe_user :: "TgUser option"
  ready :: "error option"
  expand :: "error option"

text \<open>The \<open>{data, error}\<close> pair every call of the backend client resolves to.\<close>

record 'a response =
  data :: "'a option"
  error :: "error option"

text \<open>The remote calls the provider issues, in the order of their first use.\<close>

datatype request =
    SelectByTelegramId int
  | InsertUser int "string option" "string option" "string option" number number
  | SelectById int
  | UpdatePointsLevel int number number

datatype log_entry =
    console_log string int
  | console_warn string
  | console_error string error

text \<open>
  Everything outside the React state: the rows of the \<open>users\<close> table with the next
  identifier the backend will assign, the remote calls issued so far (oldest
  first) and the lines written to the console (oldest first).
\<close>

record world =
  users :: "User list"
  next_id :: int
  requests :: "request list"
  console :: "log_entry list"

text \<open>
  Whether a remote call fails is decided outside the program: \<open>net r = Some e\<close>
  says that request \<open>r\<close> comes back with error \<open>e\<close>, \<open>net r = None\<close> that the
  backend answers it.
\<close>

type_synonym network = "request \<Rightarrow> error option"

subsection \<open>The backend\<close>

definition issue :: "request \<Rightarrow> world \<Rightarrow> world" where
  "issue r w = w\<lparr>requests := requests w @ [r]\<rparr>"

definition write_console :: "log_entry \<Rightarrow> world \<Rightarrow> world" where
  "write_console l w = w\<lparr>console := console w @ [l]\<rparr>"

text \<open>
  Modelled from the spec: the hosted backend is an external service. Lookup by
  \<open>telegram_id\<close> is \<open>SELECT * WHERE telegram_id = ? LIMIT 1\<close>, zero or one row
  (lines 91-95 of the source issue it).
\<close>

definition select_telegram_id_maybeSingle ::
  "network \<Rightarrow> int \<Rightarrow> world \<Rightarrow> User response \<times> world" where
  "select_telegram_id_maybeSingle net t w =
     (let q = SelectByTelegramId t in
      case net q of
        Some e \<Rightarrow> (\<lparr>data = None, error = Some e\<rparr>, issue q w)
      | None \<Rightarrow>
          (\<lparr>data = find (\<lambda>u. telegram_id u = t) (users w), error = None\<rparr>, issue q w))"

text \<open>
  Modelled from the spec: \<open>INSERT {telegram_id, username, first_name, last_name,
  points, level}\<close> answers with the inserted row including the assigned \<open>id\<close>
  (lines 102-113 of the source issue it).
\<close>

definition insert_select_single ::
  "network \<Rightarrow> int \<Rightarrow> string option \<Rightarrow> string option \<Rightarrow> string option \<Rightarrow>
   number \<Rightarrow> number \<Rightarrow> world \<Rightarrow> User response \<times> world" where
  "insert_select_single net t uname fname lname p l w =
     (let q = InsertUser t uname fname lname p l in
      case net q of
        Some e \<Rightarrow> (\<lparr>data = None, error = Some e\<rparr>, issue q w)
      | None \<Rightarrow>
          (let row = \<lparr>user_id = next_id w, telegram_id = t, username = uname,
                       first_name = fname, last_name = lname, points = p, level = l\<rparr>
           in (\<lparr>data = Some row, error = None\<rparr>,
               issue q (w\<lparr>users := users w @ [row], next_id := next_id w + 1\<rparr>))))"

text \<open>
  Modelled from the spec: \<open>SELECT * WHERE id = ?\<close> answers with exactly one row
  (lines 127-131 of the source issue it); when no row has that \<open>id\<close> the call
  comes back with an error, as a call that cannot deliver its one row does.
\<close>

definition select_id_single :: "network \<Rightarrow> int \<Rightarrow> world \<Rightarrow> User response \<times> world" where
  "select_id_single net i w =
     (let q = SelectById i in
      case net q of
        Some e \<Rightarrow> (\<lparr>data = None, error = Some e\<rparr>, issue q w)
      | None \<Rightarrow>
          (case find (\<lambda>u. user_id u = i) (users w) of
             None \<Rightarrow> (\<lparr>data = None, error = Some (Error ''no rows returned'')\<rparr>, issue q w)
           | Some row \<Rightarrow> (\<lparr>data = Some row, error = None\<rparr>, issue q w)))"

text \<open>
  Modelled from the spec: \<open>UPDATE {points, level} WHERE id = ?\<close>, whose result
  the source discards (lines 151-155).
\<close>

definition update_points_level ::
  "network \<Rightarrow> int \<Rightarrow> number \<Rightarrow> number \<Rightarrow> world \<Rightarrow> world" where
  "update_points_level net i p l w =
     (let q = UpdatePointsLevel i p l in
      case net q of
        Some e \<Rightarrow> issue q w
      | None \<Rightarrow>
          issue q (w\<lparr>users :=
            map (\<lambda>u. if user_id u = i then u\<lparr>points := p, level := l\<rparr> else u) (users w)\<rparr>))"

subsection \<open>The provider's operations\<close>

text \<open>
  The body of the \<open>try\<close> of \<open>fetchOrCreateUser\<close> (lines 91-117). \<open>Inl e\<close> is
  \<open>throw e\<close>; both throws come before any \<open>setUser\<close>, so a throw carries no state.
\<close>

definition fetchOrCreateUser_try ::
  "network \<Rightarrow> TgUser \<Rightarrow> world \<Rightarrow> auth_state \<Rightarrow> world \<times> (error + auth_state)" where
  "fetchOrCreateUser_try net tgUser w s =
     (case select_telegram_id_maybeSingle net (tg_id tgUser) w of (fetched, w1) \<Rightarrow>
        (case error fetched of
           Some fetchError \<Rightarrow> (w1, Inl fetchError)
         | None \<Rightarrow>
             (case data fetched of
                Some existingUser \<Rightarrow> (w1, Inr (s\<lparr>user := Some existingUser\<rparr>))
              | None \<Rightarrow>
                  (case insert_select_single net (tg_id tgUser) (tg_username tgUser)
                          (tg_first_name tgUser) (tg_last_name tgUser) (Finite 0) (Finite 1) w1
                   of (created, w2) \<Rightarrow>
                     (case error created of
                        Some createError \<Rightarrow> (w2, Inl createError)
                      | None \<Rightarrow> (w2, Inr (s\<lparr>user := data created\<rparr>)))))))"

text \<open>\<open>fetchOrCreateUser\<close> (lines 89-121): the \<open>catch\<close> logs and returns.\<close>

definition fetchOrCreateUser ::
  "network \<Rightarrow> TgUser \<Rightarrow> world \<Rightarrow> auth_state \<Rightarrow> world \<times> auth_state" where
  "fetchOrCreateUser net tgUser w s =
     (case fetchOrCreateUser_try net tgUser w s of
        (w', Inl e) \<Rightarrow> (write_console (console_error ''Error fetching/creating user:'' e) w', s)
      | (w', Inr s') \<Rightarrow> (w', s'))"

text \<open>
  The body of the \<open>try\<close> of \<open>initializeAuth\<close> (lines 64-82). The condition
  \<open>tgUser && tgUser.id\<close> is JavaScript truthiness: an identity whose \<open>id\<close> is
  \<open>0\<close> takes the \<open>else\<close> branch. The only calls that can throw are the two host
  calls, before any state is set.
\<close>

definition initializeAuth_try ::
  "network \<Rightarrow> WebApp option \<Rightarrow> world \<Rightarrow> auth_state \<Rightarrow> error + world \<times> auth_state" where
  "initializeAuth_try net Telegram w s =
     (case Telegram of
        Some tg \<Rightarrow>
          (case ready tg of
             Some e \<Rightarrow> Inl e
           | None \<Rightarrow>
               (case expand tg of
                  Some e \<Rightarrow> Inl e
                | None \<Rightarrow>
                    (case initDataUnsafe_user tg of
                       Some tgUser \<Rightarrow>
                         (if tg_id tgUser \<noteq> 0 then
                            Inr (fetchOrCreateUser net tgUser
                              (write_console (console_log ''Telegram user detected:'' (tg_id tgUser)) w)
                              (s\<lparr>telegramUser := Some tgUser\<rparr>))
                          else
                            Inr (write_console (console_warn ''No Telegram user data available'') w,
                                 s\<lparr>loading := False\<rparr>))
                     | None \<Rightarrow>
                         Inr (write_console (console_warn ''No Telegram user data available'') w,
                              s\<lparr>loading := False\<rparr>))))
      | None \<Rightarrow>
          Inr (write_console (console_warn ''Not running in Telegram WebApp environment'') w,
               s\<lparr>loading := False\<rparr>))"

text \<open>\<open>initializeAuth\<close> (lines 62-87): the \<open>catch\<close> logs and clears \<open>loading\<close>.\<close>

definition initializeAuth ::
  "network \<Rightarrow> WebApp option \<Rightarrow> world \<Rightarrow> auth_state \<Rightarrow> world \<times> auth_state" where
  "initializeAuth net Telegram w s =
     (case initializeAuth_try net Telegram w s of
        Inl e \<Rightarrow> (write_console (console_error ''Auth initialization error:'' e) w,
                  s\<lparr>loading := False\<rparr>)
      | Inr ws \<Rightarrow> ws)"

text \<open>\<open>refreshUser\<close> (lines 123-138).\<close>

definition refreshUser :: "network \<Rightarrow> world \<Rightarrow> auth_state \<Rightarrow> world \<times> auth_state" where
  "refreshUser net w s =
     (case user s of
        None \<Rightarrow> (w, s)
      | Some u \<Rightarrow>
          (case select_id_single net (user_id u) w of (fetched, w1) \<Rightarrow>
             (case error fetched of
                Some e \<Rightarrow> (write_console (console_error ''Error refreshing user:'' e) w1, s)
              | None \<Rightarrow> (w1, s\<lparr>user := data fetched\<rparr>))))"

text \<open>
  \<open>updateUserPoints\<close> (lines 140-157). Lines 142-143 are arithmetic on numbers:
  \<open>user.points + points\<close>, then \<open>Math.floor(newPoints / 100) + 1\<close>, each
  operation rounding its result. The local state is set first; the remote write is
  issued and its outcome dropped (\<open>.then()\<close> with no handler).
\<close>

definition updateUserPoints ::
  "network \<Rightarrow> number \<Rightarrow> world \<Rightarrow> auth_state \<Rightarrow> world \<times> auth_state" where
  "updateUserPoints net pts w s =
     (case user s of
        Some u \<Rightarrow>
          (let newPoints = js_add (points u) pts;
               newLevel = js_add (Math_floor (js_divide newPoints 100)) (Finite 1)
           in (update_points_level net (user_id u) newPoints newLevel w,
               s\<lparr>user := Some (u\<lparr>points := newPoints, level := newLevel\<rparr>)\<rparr>))
      | None \<Rightarrow> (w, s))"

subsection \<open>Names for the requests of the lookup-or-create\<close>

text \<open>The request of lines 91-95 for an identity, and the one of lines 102-113.\<close>

definition lookup_request :: "TgUser \<Rightarrow> request" where
  "lookup_request tgUser = SelectByTelegramId (tg_id tgUser)"

definition create_request :: "TgUser \<Rightarrow> request" where
  "create_request tgUser =
     InsertUser (tg_id tgUser) (tg_username tgUser) (tg_first_name tgUser)
       (tg_last_name tgUser) (Finite 0) (Finite 1)"

text \<open>The row the backend stores for a create request issued in world \<open>w\<close>.\<close>

definition new_row :: "TgUser \<Rightarrow> world \<Rightarrow> User" where
  "new_row tgUser w =
     \<lparr>user_id = next_id w, telegram_id = tg_id tgUser, username = tg_username tgUser,
      first_name = tg_first_name tgUser, last_name = tg_last_name tgUser,
      points = Finite 0, level = Finite 1\<rparr>"


subsection \<open>Two runs of the lookup-or-create that overlap\<close>

text \<open>
  \<open>fetchOrCreateUser\<close> suspends at each \<open>await\<close>. The part of its \<open>try\<close> that
  runs once the lookup has been answered with \<open>fetched\<close> (lines 97-117), resumed
  in the world \<open>w1\<close> of that moment:
\<close>

definition fetchOrCreateUser_after_lookup ::
  "network \<Rightarrow> TgUser \<Rightarrow> User response \<Rightarrow> world \<Rightarrow> auth_state \<Rightarrow>
   world \<times> (error + auth_state)" where
  "fetchOrCreateUser_after_lookup net tgUser fetched w1 s =
     (case error fetched of
        Some fetchError \<Rightarrow> (w1, Inl fetchError)
      | None \<Rightarrow>
          (case data fetched of
             Some existingUser \<Rightarrow> (w1, Inr (s\<lparr>user := Some existingUser\<rparr>))
           | None \<Rightarrow>
               (case insert_select_single net (tg_id tgUser) (tg_username tgUser)
                       (tg_first_name tgUser) (tg_last_name tgUser) (Finite 0) (Finite 1) w1
                of (created, w2) \<Rightarrow>
                  (case error created of
                     Some createError \<Rightarrow> (w2, Inl createError)
                   | None \<Rightarrow> (w2, Inr (s\<lparr>user := data created\<rparr>))))))"

text \<open>The \<open>catch\<close> of lines 118-120, applied to the outcome of the \<open>try\<close>.\<close>

definition fetchOrCreateUser_catch ::
  "world \<times> (error + auth_state) \<Rightarrow> auth_state \<Rightarrow> world \<times> auth_state" where
  "fetchOrCreateUser_catch outcome s =
     (case outcome of
        (w', Inl e) \<Rightarrow> (write_console (console_error ''Error fetching/creating user:'' e) w', s)
      | (w', Inr s') \<Rightarrow> (w', s'))"


subsection \<open>Concrete inputs\<close>

text \<open>
  The inputs of the scenarios: a backend that answers every call, one that fails a
  chosen request, an empty table, the identity \<open>{id: 42, first_name: "Ana"}\<close>
  and a second one with the same \<open>id\<close>, a host container whose lifecycle calls
  return, and the stored record \<open>{id: 7, telegram_id: 42, points: 250, level: 3}\<close>.
\<close>

definition online :: network where
  "online = (\<lambda>r. None)"

definition failing :: "request \<Rightarrow> error \<Rightarrow> network" where
  "failing q e = (\<lambda>r. if r = q then Some e else None)"

definition boom :: error where
  "boom = Error ''network down''"

definition empty_world :: world where
  "empty_world = \<lparr>users = [], next_id = 1, requests = [], console = []\<rparr>"

definition ana :: TgUser where
  "ana = \<lparr>tg_id = 42, tg_first_name = Some ''Ana'', tg_last_name = None, tg_username = None\<rparr>"

definition bob :: TgUser where
  "bob = \<lparr>tg_id = 42, tg_first_name = Some ''Bob'', tg_last_name = None, tg_username = None\<rparr>"

definition host :: "TgUser \<Rightarrow> WebApp" where
  "host h = \<lparr>initDataUnsafe_user = Some h, ready = None, expand = None\<rparr>"

definition existing :: User where
  "existing = \<lparr>user_id = 7, telegram_id = 42, username = Some ''old'', first_name = None,
     last_name = None, points = Finite 250, level = Finite 3\<rparr>"

definition stored :: world where
  "stored = \<lparr>users = [existing], next_id = 8, requests = [], console = []\<rparr>"

definition resolved :: auth_state where
  "resolved = \<lparr>user = Some existing, telegramUser = Some ana, loading = True\<rparr>"

lemmas example_defs = online_def failing_def boom_def empty_world_def ana_def bob_def host_def
  existing_def stored_def resolved_def initial_state_def

section \<open>Properties\<close>

subsection \<open>Auxiliary facts: rounding to binary64\<close>



lemma binade_upper:
  assumes "0 < q" shows "q < 2 powi (binade q + 1)"
proof (cases "1 \<le> q")
  case True
  then have pos: "0 < \<lfloor>q\<rfloor>" by linarith
  from pos have b1: "1 \<le> bitlen \<lfloor>q\<rfloor>"
    using bitlen_eq_zero_iff [of "\<lfloor>q\<rfloor>"] bitlen_nonneg [of "\<lfloor>q\<rfloor>"] by linarith
  from bitlen_bounds [OF pos] have "\<lfloor>q\<rfloor> < 2 ^ nat (bitlen \<lfloor>q\<rfloor>)" by simp
  then have "\<lfloor>q\<rfloor> + 1 \<le> 2 ^ nat (bitlen \<lfloor>q\<rfloor>)" by linarith
  then have "rat_of_int (\<lfloor>q\<rfloor> + 1) \<le> of_int (2 ^ nat (bitlen \<lfloor>q\<rfloor>))"
    by (simp only: of_int_le_iff)
  moreover have "q < of_int (\<lfloor>q\<rfloor> + 1)" by linarith
  ultimately have "q < 2 ^ nat (bitlen \<lfloor>q\<rfloor>)" by simp
  with True b1 show ?thesis
    by (simp add: binade_def power_int_def)
next
  case False
  let ?c = "\<lceil>1 / q\<rceil>"
  let ?m = "bitlen (?c - 1)"
  from False assms have "1 < 1 / q" by simp
  then have c: "0 < ?c - 1" by linarith
  then have m1: "1 \<le> ?m"
    using bitlen_eq_zero_iff [of "?c - 1"] bitlen_nonneg [of "?c - 1"] by linarith
  from bitlen_bounds [OF c] have "2 ^ nat (?m - 1) \<le> ?c - 1" by simp
  then have "rat_of_int (2 ^ nat (?m - 1)) \<le> of_int (?c - 1)"
    by (simp only: of_int_le_iff)
  moreover have "of_int (?c - 1) < 1 / q" by linarith
  ultimately have lt: "2 ^ nat (?m - 1) < 1 / q" by simp
  have "0 < (2::rat) ^ nat (?m - 1)" by simp
  with lt assms have "q < 1 / 2 ^ nat (?m - 1)"
    by (simp add: field_simps)
  moreover have "(2::rat) powi (- ?m + 1) = 1 / 2 ^ nat (?m - 1)"
  proof (cases "?m = 1")
    case True then show ?thesis by simp
  next
    case False
    with m1 have "\<not> 0 \<le> - ?m + 1" by simp
    moreover have "nat (- (- ?m + 1)) = nat (?m - 1)" by simp
    ultimately show ?thesis
      by (simp only: power_int_def if_False inverse_eq_divide power_one_over)
  qed
  ultimately show ?thesis using False
    by (simp add: binade_def)
qed















subsection \<open>Auxiliary facts: the lookup-or-create case by case\<close>

lemma users_issue [simp]: "users (issue q w) = users w"
  by (simp add: issue_def)

lemma users_write_console [simp]: "users (write_console l w) = users w"
  by (simp add: write_console_def)

lemma fetchOrCreateUser_lookup_error:
  "net (lookup_request tgUser) = Some e \<Longrightarrow>
   fetchOrCreateUser net tgUser w s =
     (write_console (console_error ''Error fetching/creating user:'' e)
        (issue (lookup_request tgUser) w), s)"
  by (simp add: fetchOrCreateUser_def fetchOrCreateUser_try_def lookup_request_def
      select_telegram_id_maybeSingle_def)

lemma fetchOrCreateUser_found:
  "net (lookup_request tgUser) = None \<Longrightarrow>
   find (\<lambda>u. telegram_id u = tg_id tgUser) (users w) = Some u \<Longrightarrow>
   fetchOrCreateUser net tgUser w s = (issue (lookup_request tgUser) w, s\<lparr>user := Some u\<rparr>)"
  by (simp add: fetchOrCreateUser_def fetchOrCreateUser_try_def lookup_request_def
      select_telegram_id_maybeSingle_def)

lemma fetchOrCreateUser_create_error:
  "net (lookup_request tgUser) = None \<Longrightarrow>
   find (\<lambda>u. telegram_id u = tg_id tgUser) (users w) = None \<Longrightarrow>
   net (create_request tgUser) = Some e \<Longrightarrow>
   fetchOrCreateUser net tgUser w s =
     (write_console (console_error ''Error fetching/creating user:'' e)
        (issue (create_request tgUser) (issue (lookup_request tgUser) w)), s)"
  by (simp add: fetchOrCreateUser_def fetchOrCreateUser_try_def lookup_request_def
      create_request_def select_telegram_id_maybeSingle_def insert_select_single_def)

lemma fetchOrCreateUser_created:
  "net (lookup_request tgUser) = None \<Longrightarrow>
   find (\<lambda>u. telegram_id u = tg_id tgUser) (users w) = None \<Longrightarrow>
   net (create_request tgUser) = None \<Longrightarrow>
   fetchOrCreateUser net tgUser w s =
     (issue (create_request tgUser)
        ((issue (lookup_request tgUser) w)
           \<lparr>users := users w @ [new_row tgUser w], next_id := next_id w + 1\<rparr>),
      s\<lparr>user := Some (new_row tgUser w)\<rparr>)"
  by (simp add: fetchOrCreateUser_def fetchOrCreateUser_try_def lookup_request_def
      create_request_def select_telegram_id_maybeSingle_def insert_select_single_def
      new_row_def issue_def Let_def)

lemma initializeAuth_identity:
  "ready tg = None \<Longrightarrow> expand tg = None \<Longrightarrow> initDataUnsafe_user tg = Some tgUser \<Longrightarrow>
   tg_id tgUser \<noteq> 0 \<Longrightarrow>
   initializeAuth net (Some tg) w s =
     fetchOrCreateUser net tgUser
       (write_console (console_log ''Telegram user detected:'' (tg_id tgUser)) w)
       (s\<lparr>telegramUser := Some tgUser\<rparr>)"
  by (simp add: initializeAuth_def initializeAuth_try_def)

lemma initializeAuth_created:
  "ready tg = None \<Longrightarrow> expand tg = None \<Longrightarrow> initDataUnsafe_user tg = Some tgUser \<Longrightarrow>
   tg_id tgUser \<noteq> 0 \<Longrightarrow>
   net (lookup_request tgUser) = None \<Longrightarrow>
   find (\<lambda>u. telegram_id u = tg_id tgUser) (users w) = None \<Longrightarrow>
   net (create_request tgUser) = None \<Longrightarrow>
   snd (initializeAuth net (Some tg) w s) =
     s\<lparr>telegramUser := Some tgUser, user := Some (new_row tgUser w)\<rparr>"
  by (simp add: initializeAuth_identity fetchOrCreateUser_created new_row_def
      write_console_def)

text \<open>The four ways a run of \<open>fetchOrCreateUser\<close> can go.\<close>

lemma fetchOrCreateUser_cases:
  obtains (lookup_error) e where "net (lookup_request tgUser) = Some e"
  | (found) u where "net (lookup_request tgUser) = None"
      "find (\<lambda>u. telegram_id u = tg_id tgUser) (users w) = Some u"
  | (create_error) e where "net (lookup_request tgUser) = None"
      "find (\<lambda>u. telegram_id u = tg_id tgUser) (users w) = None"
      "net (create_request tgUser) = Some e"
  | (created) "net (lookup_request tgUser) = None"
      "find (\<lambda>u. telegram_id u = tg_id tgUser) (users w) = None"
      "net (create_request tgUser) = None"
  by (cases "net (lookup_request tgUser)";
      cases "find (\<lambda>u. telegram_id u = tg_id tgUser) (users w)";
      cases "net (create_request tgUser)") auto

lemma fetchOrCreateUser_loading:
  "loading (snd (fetchOrCreateUser net tgUser w s)) = loading s"
  by (rule fetchOrCreateUser_cases [where net = net and tgUser = tgUser and w = w])
     (simp_all add: fetchOrCreateUser_lookup_error fetchOrCreateUser_found
        fetchOrCreateUser_create_error fetchOrCreateUser_created)

lemma telegram_id_new_row [simp]: "telegram_id (new_row tgUser w) = tg_id tgUser"
  by (simp add: new_row_def)





lemma fetchOrCreateUser_phases:
  "fetchOrCreateUser net tgUser w s =
     (case select_telegram_id_maybeSingle net (tg_id tgUser) w of (fetched, w1) \<Rightarrow>
        fetchOrCreateUser_catch (fetchOrCreateUser_after_lookup net tgUser fetched w1 s) s)"
  by (simp add: fetchOrCreateUser_def fetchOrCreateUser_try_def fetchOrCreateUser_catch_def
      fetchOrCreateUser_after_lookup_def split: prod.splits)



lemma updateUserPoints_resolved:
  "user s = Some u \<Longrightarrow>
   snd (updateUserPoints net delta w s) =
     s\<lparr>user := Some (u\<lparr>points := js_add (points u) delta,
       level := js_add (Math_floor (js_divide (js_add (points u) delta) 100)) (Finite 1)\<rparr>)\<rparr>"
  by (simp add: updateUserPoints_def Let_def)

subsection \<open>initializeAuth\<close>

text \<open>
  C5. Without the host container \<open>initializeAuth\<close> only warns on the console and
  sets \<open>loading\<close> to \<open>False\<close>; started from the initial state, \<open>user\<close> and
  \<open>telegramUser\<close> are still absent afterwards.
\<close>

theorem initializeAuth_no_host:
  "initializeAuth net None w s =
     (write_console (console_warn ''Not running in Telegram WebApp environment'') w,
      s\<lparr>loading := False\<rparr>)
   \<and> snd (initializeAuth net None w initial_state) =
       \<lparr>user = None, telegramUser = None, loading = False\<rparr>"
  by (simp add: initializeAuth_def initializeAuth_try_def initial_state_def)

text \<open>
  C1. The scenario of the claim, run on the code: identity \<open>{id: 42, first_name: "Ana"}\<close>,
  an empty table, a backend that answers. After \<open>initializeAuth\<close> the user is the
  row the backend returned (\<open>telegram_id = 42\<close>, the display fields of the identity,
  \<open>points = 0\<close>, \<open>level = 1\<close>, the assigned \<open>id\<close>), one lookup and then one create
  were issued, and \<open>loading\<close> is still \<open>True\<close>: lines 71-74 never call
  \<open>setLoading(false)\<close>, which every other exit of \<open>initializeAuth\<close> does
  (lines 77, 81, 85).
\<close>

theorem initializeAuth_new_user_loading:
  "initializeAuth online (Some (host ana)) empty_world initial_state =
     (\<lparr>users = [\<lparr>user_id = 1, telegram_id = 42, username = None, first_name = Some ''Ana'',
                  last_name = None, points = Finite 0, level = Finite 1\<rparr>],
       next_id = 2,
       requests = [SelectByTelegramId 42,
                   InsertUser 42 None (Some ''Ana'') None (Finite 0) (Finite 1)],
       console = [console_log ''Telegram user detected:'' 42]\<rparr>,
      \<lparr>user = Some \<lparr>user_id = 1, telegram_id = 42, username = None, first_name = Some ''Ana'',
                    last_name = None, points = Finite 0, level = Finite 1\<rparr>,
       telegramUser = Some ana,
       loading = True\<rparr>)"
  by (simp add: initializeAuth_def initializeAuth_try_def fetchOrCreateUser_def
      fetchOrCreateUser_try_def select_telegram_id_maybeSingle_def insert_select_single_def
      issue_def write_console_def Let_def example_defs)

text \<open>
  C6. When the lookup is answered with an existing record \<open>u\<close>, \<open>initializeAuth\<close>
  on a valid identity sets \<open>user\<close> to \<open>u\<close> as it is, stores the identity in
  \<open>telegramUser\<close>, and issues the lookup and nothing else: no field of \<open>u\<close> is
  taken from the identity, locally or in the table.
\<close>

theorem initializeAuth_existing:
  assumes "ready tg = None" and "expand tg = None" and "initDataUnsafe_user tg = Some tgUser"
    and "tg_id tgUser \<noteq> 0"
    and "net (lookup_request tgUser) = None"
    and "find (\<lambda>u. telegram_id u = tg_id tgUser) (users w) = Some u"
  shows "initializeAuth net (Some tg) w s =
           (issue (lookup_request tgUser)
              (write_console (console_log ''Telegram user detected:'' (tg_id tgUser)) w),
            s\<lparr>telegramUser := Some tgUser, user := Some u\<rparr>)"
  using assms by (simp add: initializeAuth_identity fetchOrCreateUser_found)

theorem initializeAuth_existing_witness:
  "snd (initializeAuth online (Some (host ana)) stored initial_state) =
     \<lparr>user = Some existing, telegramUser = Some ana, loading = True\<rparr> \<and>
   users (fst (initializeAuth online (Some (host ana)) stored initial_state)) = [existing] \<and>
   requests (fst (initializeAuth online (Some (host ana)) stored initial_state)) =
     [SelectByTelegramId 42] \<and>
   first_name existing \<noteq> tg_first_name ana \<and> username existing \<noteq> tg_username ana"
proof -
  have f: "find (\<lambda>u. telegram_id u = tg_id ana) (users stored) = Some existing"
    by (simp add: stored_def existing_def ana_def)
  have n: "online (lookup_request ana) = None"
    by (simp add: online_def)
  have "ready (host ana) = None" and "expand (host ana) = None"
    and "initDataUnsafe_user (host ana) = Some ana" and "tg_id ana \<noteq> 0"
    by (simp_all add: host_def ana_def)
  from initializeAuth_existing [where net = online and tgUser = ana and tg = "host ana"
      and w = stored and u = existing and s = initial_state, OF this n f]
  show ?thesis
    by (simp add: issue_def write_console_def stored_def initial_state_def lookup_request_def
        ana_def existing_def)
qed

text \<open>
  C4. When the lookup fails, or finds nothing and the create fails, with error \<open>e\<close>:
  \<open>fetchOrCreateUser\<close> returns with the React state exactly as it was (so \<open>user\<close>
  stays absent and \<open>loading\<close> keeps its value), the table is unchanged and the one
  new console line is the logged error. Seen from the caller: \<open>initializeAuth\<close> on a
  valid identity ends with \<open>user\<close> absent and \<open>loading\<close> still \<open>True\<close>, and its own
  \<open>catch\<close> has not run (no \<open>Auth initialization error:\<close> line), so the exception
  did not reach it.
\<close>

theorem fetchOrCreateUser_failure:
  assumes "net (lookup_request tgUser) = Some e \<or>
           (net (lookup_request tgUser) = None \<and>
            find (\<lambda>u. telegram_id u = tg_id tgUser) (users w) = None \<and>
            net (create_request tgUser) = Some e)"
  shows "snd (fetchOrCreateUser net tgUser w s) = s \<and>
         console (fst (fetchOrCreateUser net tgUser w s)) =
           console w @ [console_error ''Error fetching/creating user:'' e] \<and>
         users (fst (fetchOrCreateUser net tgUser w s)) = users w \<and>
         (ready tg = None \<and> expand tg = None \<and> initDataUnsafe_user tg = Some tgUser \<and>
          tg_id tgUser \<noteq> 0 \<longrightarrow>
            snd (initializeAuth net (Some tg) w initial_state) =
              \<lparr>user = None, telegramUser = Some tgUser, loading = True\<rparr> \<and>
            console (fst (initializeAuth net (Some tg) w initial_state)) =
              console w @ [console_log ''Telegram user detected:'' (tg_id tgUser),
                           console_error ''Error fetching/creating user:'' e])"
  using assms
  by (auto simp add: initializeAuth_identity fetchOrCreateUser_lookup_error
      fetchOrCreateUser_create_error write_console_def issue_def initial_state_def)

theorem fetchOrCreateUser_failure_witness:
  "snd (initializeAuth (failing (lookup_request ana) boom) (Some (host ana)) empty_world
          initial_state) =
     \<lparr>user = None, telegramUser = Some ana, loading = True\<rparr> \<and>
   fetchOrCreateUser (failing (lookup_request ana) boom) ana empty_world initial_state =
     (empty_world\<lparr>requests := [lookup_request ana],
        console := [console_error ''Error fetching/creating user:'' boom]\<rparr>, initial_state) \<and>
   snd (initializeAuth (failing (create_request ana) boom) (Some (host ana)) empty_world
          initial_state) =
     \<lparr>user = None, telegramUser = Some ana, loading = True\<rparr> \<and>
   console (fst (initializeAuth (failing (create_request ana) boom) (Some (host ana)) empty_world
          initial_state)) =
     [console_log ''Telegram user detected:'' 42,
      console_error ''Error fetching/creating user:'' boom]"
proof -
  let ?down = "failing (lookup_request ana) boom"
  let ?full = "failing (create_request ana) boom"
  have l: "?down (lookup_request ana) = Some boom"
    by (simp add: failing_def)
  have c: "?full (lookup_request ana) = None \<and>
           find (\<lambda>u. telegram_id u = tg_id ana) (users empty_world) = None \<and>
           ?full (create_request ana) = Some boom"
    by (simp add: failing_def lookup_request_def create_request_def empty_world_def)
  have e: "ready (host ana) = None \<and> expand (host ana) = None \<and>
           initDataUnsafe_user (host ana) = Some ana \<and> tg_id ana \<noteq> 0"
    by (simp add: host_def ana_def)
  have r: "requests (fst (fetchOrCreateUser ?down ana empty_world initial_state)) =
             [lookup_request ana] \<and>
           next_id (fst (fetchOrCreateUser ?down ana empty_world initial_state)) = 1"
    using l by (simp add: fetchOrCreateUser_lookup_error write_console_def issue_def
        empty_world_def)
  show ?thesis
    using e r
      fetchOrCreateUser_failure [where net = ?down and tgUser = ana and e = boom
        and w = empty_world and s = initial_state and tg = "host ana", OF disjI1, OF l]
      fetchOrCreateUser_failure [where net = ?full and tgUser = ana and e = boom
        and w = empty_world and s = initial_state and tg = "host ana", OF disjI2, OF c]
    by (simp add: prod_eq_iff empty_world_def ana_def)
qed




subsection \<open>refreshUser\<close>

text \<open>
  C7. \<open>refreshUser\<close> leaves \<open>telegramUser\<close> and \<open>loading\<close> as they were, in
  every state and whatever the backend answers; with \<open>user\<close> absent it changes
  neither the state nor the world, so it issues no remote call.
\<close>

theorem refreshUser_frame:
  "telegramUser (snd (refreshUser net w s)) = telegramUser s \<and>
   loading (snd (refreshUser net w s)) = loading s \<and>
   (user s = None \<longrightarrow> refreshUser net w s = (w, s))"
  by (simp add: refreshUser_def select_id_single_def Let_def split: option.splits)

theorem refreshUser_frame_witness:
  "user initial_state = None \<and> refreshUser online empty_world initial_state = (empty_world, initial_state)"
proof -
  have h: "user initial_state = None" by (simp add: initial_state_def)
  show ?thesis using h refreshUser_frame [of online empty_world initial_state] by simp
qed

text \<open>
  C8. \<open>refreshUser\<close> for a resolved user \<open>u\<close>. If the fetch by \<open>u\<close>'s \<open>id\<close>
  fails with \<open>e\<close>, or no row has that \<open>id\<close>, the error is written to the console
  and the state, \<open>user\<close> included, is unchanged. If the fetch returns a row, \<open>user\<close>
  becomes that row, whole.
\<close>

theorem refreshUser_outcomes:
  assumes "user s = Some u"
  shows "(net (SelectById (user_id u)) = Some e \<longrightarrow>
            refreshUser net w s =
              (write_console (console_error ''Error refreshing user:'' e)
                 (issue (SelectById (user_id u)) w), s)) \<and>
         (net (SelectById (user_id u)) = None \<longrightarrow>
          find (\<lambda>r. user_id r = user_id u) (users w) = None \<longrightarrow>
            refreshUser net w s =
              (write_console (console_error ''Error refreshing user:'' (Error ''no rows returned''))
                 (issue (SelectById (user_id u)) w), s)) \<and>
         (net (SelectById (user_id u)) = None \<longrightarrow>
          find (\<lambda>r. user_id r = user_id u) (users w) = Some row \<longrightarrow>
            refreshUser net w s = (issue (SelectById (user_id u)) w, s\<lparr>user := Some row\<rparr>))"
  using assms by (simp add: refreshUser_def select_id_single_def Let_def)

theorem refreshUser_outcomes_witness:
  "user resolved = Some existing \<and>
   refreshUser (failing (SelectById 7) boom) stored resolved =
     (stored\<lparr>requests := [SelectById 7],
             console := [console_error ''Error refreshing user:'' boom]\<rparr>, resolved) \<and>
   refreshUser online empty_world resolved =
     (empty_world\<lparr>requests := [SelectById 7],
        console := [console_error ''Error refreshing user:'' (Error ''no rows returned'')]\<rparr>,
      resolved) \<and>
   refreshUser online (stored\<lparr>users := [existing\<lparr>points := Finite 900, level := Finite 10\<rparr>]\<rparr>) resolved =
     (stored\<lparr>users := [existing\<lparr>points := Finite 900, level := Finite 10\<rparr>], requests := [SelectById 7]\<rparr>,
      resolved\<lparr>user := Some (existing\<lparr>points := Finite 900, level := Finite 10\<rparr>)\<rparr>)"
proof -
  have h: "user resolved = Some existing" by (simp add: resolved_def)
  have i: "user_id existing = 7" by (simp add: existing_def)
  show ?thesis
    using h
      refreshUser_outcomes [OF h, of "failing (SelectById 7) boom" boom stored]
      refreshUser_outcomes [OF h, of online _ empty_world]
      refreshUser_outcomes [OF h, of online _
        "stored\<lparr>users := [existing\<lparr>points := Finite 900, level := Finite 10\<rparr>]\<rparr>"
        "existing\<lparr>points := Finite 900, level := Finite 10\<rparr>"]
    by (simp add: i online_def failing_def stored_def empty_world_def issue_def write_console_def)
qed

subsection \<open>updateUserPoints\<close>

text \<open>
  C9. With \<open>user\<close> absent, \<open>updateUserPoints delta\<close> changes nothing for any
  \<open>delta\<close>: the state (\<open>user\<close>, \<open>telegramUser\<close>, \<open>loading\<close>) and the world are
  returned as they were, so no remote write is issued.
\<close>

theorem updateUserPoints_absent:
  assumes "user s = None"
  shows "updateUserPoints net delta w s = (w, s)"
  using assms by (simp add: updateUserPoints_def)

theorem updateUserPoints_absent_witness:
  "user initial_state = None \<and>
   updateUserPoints online (Finite (-5)) empty_world initial_state = (empty_world, initial_state)"
proof -
  have h: "user initial_state = None" by (simp add: initial_state_def)
  show ?thesis using h updateUserPoints_absent [OF h] by simp
qed




text \<open>
  C10. For a resolved user \<open>u\<close> and any \<open>delta\<close>, after \<open>updateUserPoints delta\<close>
  the local user has \<open>u\<close>'s \<open>id\<close>, \<open>telegram_id\<close>, \<open>username\<close>, \<open>first_name\<close>
  and \<open>last_name\<close>, and \<open>telegramUser\<close> and \<open>loading\<close> are unchanged.
\<close>

theorem updateUserPoints_frame:
  assumes "user s = Some u" and "updateUserPoints net delta w s = (w', s')"
  shows "map_option user_id (user s') = Some (user_id u) \<and>
         map_option telegram_id (user s') = Some (telegram_id u) \<and>
         map_option username (user s') = Some (username u) \<and>
         map_option first_name (user s') = Some (first_name u) \<and>
         map_option last_name (user s') = Some (last_name u) \<and>
         telegramUser s' = telegramUser s \<and> loading s' = loading s"
proof -
  from assms(2) have "s' = snd (updateUserPoints net delta w s)" by simp
  with assms(1) show ?thesis
    by (simp add: updateUserPoints_resolved)
qed

theorem updateUserPoints_frame_witness:
  "user resolved = Some existing \<and>
   map_option user_id (user (snd (updateUserPoints online (Finite 120) empty_world resolved))) = Some 7 \<and>
   map_option telegram_id (user (snd (updateUserPoints online (Finite 120) empty_world resolved))) = Some 42 \<and>
   map_option username (user (snd (updateUserPoints online (Finite 120) empty_world resolved))) = Some (Some ''old'') \<and>
   telegramUser (snd (updateUserPoints online (Finite 120) empty_world resolved)) = Some ana \<and>
   loading (snd (updateUserPoints online (Finite 120) empty_world resolved)) = True"
proof -
  have h: "user resolved = Some existing" by (simp add: resolved_def)
  show ?thesis
    using h updateUserPoints_frame [OF h surjective_pairing, of online "Finite 120" empty_world]
    by (simp add: existing_def resolved_def)
qed

end
